theory Spec2Isabelle
  imports Complex_Main
begin

section \<open>The architecture-diagram script \<^verbatim>\<open>chart_script.py\<close>\<close>

text \<open>
  The script builds one plotly figure from three literal tables (components, layers,
  user-flow arrows) and writes it to an image file. Its only effects are calls on the
  figure object: \<^verbatim>\<open>add_shape\<close>, \<^verbatim>\<open>add_annotation\<close>, \<^verbatim>\<open>update_layout\<close> and
  \<^verbatim>\<open>write_image\<close>. The figure is modelled as a record that is passed through these
  calls; the loops of the script are recursive functions over the tables.

  Numbers. Python's \<^verbatim>\<open>2\<close>, \<^verbatim>\<open>1.5\<close>, \<^verbatim>\<open>0.3\<close> are modelled by the rationals the
  decimal literals denote, and \<^verbatim>\<open>+\<close>, \<^verbatim>\<open>-\<close> by exact arithmetic. Python computes with
  binary doubles, whose sums and differences are off the exact ones by far less than
  \<open>1/1000\<close> at these magnitudes. Every order comparison proved below holds with at
  least \<open>1/10\<close> to spare (section "Margins"), and every equality proved below is
  between values that the script passes on unchanged, so none of them depends on the
  rounding.

  Names. A record field is a global constant, so the keys of the source's dictionaries
  and the keyword arguments of the calls carry a prefix: \<open>c_\<close> for a component's
  properties, \<open>l_\<close> for a layer, \<open>u_\<close> for a user-flow arrow, \<open>sh_\<close> for a shape,
  \<open>an_\<close> for an annotation, \<open>ly_\<close> for the layout. A keyword argument that a call may
  leave out is an \<open>option\<close>: \<open>None\<close> is "not passed".
\<close>

subsection \<open>The tables\<close>

record props =
  c_x :: rat
  c_y :: rat
  c_type :: string
  c_color :: string

text \<open>
  \<^verbatim>\<open>components\<close> (lines 5-15) is a dict literal; \<^verbatim>\<open>components.items()\<close> yields its
  entries in insertion order, so the dict is the association list of its entries in the
  order written. The keys are pairwise distinct (\<open>components_keys_distinct\<close> below), so
  no entry of the literal overwrites another.
\<close>

definition components :: "(string \<times> props) list" where
  "components =
    [(''Wix Frontend'', \<lparr>c_x = 2, c_y = 5, c_type = ''frontend'', c_color = ''#1FB8CD''\<rparr>),
     (''Cloudflare Workers'', \<lparr>c_x = 2, c_y = 4, c_type = ''backend'', c_color = ''#DB4545''\<rparr>),
     (''R2 Storage'', \<lparr>c_x = 1, c_y = 3, c_type = ''storage'', c_color = ''#2E8B57''\<rparr>),
     (''KV Store'', \<lparr>c_x = 2, c_y = 3, c_type = ''storage'', c_color = ''#2E8B57''\<rparr>),
     (''D1 Database'', \<lparr>c_x = 3, c_y = 3, c_type = ''storage'', c_color = ''#2E8B57''\<rparr>),
     (''Cloudflare AI'', \<lparr>c_x = 15/10, c_y = 2, c_type = ''processing'', c_color = ''#5D878F''\<rparr>),
     (''RunPod'', \<lparr>c_x = 25/10, c_y = 2, c_type = ''processing'', c_color = ''#5D878F''\<rparr>),
     (''Stripe'', \<lparr>c_x = 35/10, c_y = 1, c_type = ''payment'', c_color = ''#D2BA4C''\<rparr>),
     (''GitHub'', \<lparr>c_x = 5/10, c_y = 4, c_type = ''deployment'', c_color = ''#B4413C''\<rparr>)]"

record layer =
  l_name :: string
  l_y :: rat
  l_color :: string
  l_alpha :: rat

definition layers :: "layer list" where
  "layers =
    [\<lparr>l_name = ''Frontend'', l_y = 5, l_color = ''#1FB8CD'', l_alpha = 1/10\<rparr>,
     \<lparr>l_name = ''Backend'', l_y = 4, l_color = ''#DB4545'', l_alpha = 1/10\<rparr>,
     \<lparr>l_name = ''Storage'', l_y = 3, l_color = ''#2E8B57'', l_alpha = 1/10\<rparr>,
     \<lparr>l_name = ''Processing'', l_y = 2, l_color = ''#5D878F'', l_alpha = 1/10\<rparr>,
     \<lparr>l_name = ''Payment'', l_y = 1, l_color = ''#D2BA4C'', l_alpha = 1/10\<rparr>]"

record flow_arrow =
  u_start :: "rat \<times> rat"
  u_end :: "rat \<times> rat"
  u_color :: string

definition user_flow_arrows :: "flow_arrow list" where
  "user_flow_arrows =
    [\<lparr>u_start = (2, 48/10), u_end = (2, 42/10), u_color = ''blue''\<rparr>,
     \<lparr>u_start = (18/10, 38/10), u_end = (13/10, 32/10), u_color = ''blue''\<rparr>,
     \<lparr>u_start = (2, 38/10), u_end = (2, 32/10), u_color = ''blue''\<rparr>,
     \<lparr>u_start = (22/10, 38/10), u_end = (27/10, 32/10), u_color = ''blue''\<rparr>,
     \<lparr>u_start = (18/10, 38/10), u_end = (16/10, 22/10), u_color = ''blue''\<rparr>,
     \<lparr>u_start = (22/10, 38/10), u_end = (24/10, 22/10), u_color = ''blue''\<rparr>,
     \<lparr>u_start = (25/10, 38/10), u_end = (33/10, 12/10), u_color = ''blue''\<rparr>]"

subsection \<open>The figure\<close>

record line_style =
  ln_color :: "string option"
  ln_width :: "int option"

record shape =
  sh_type :: string
  sh_x0 :: rat
  sh_y0 :: rat
  sh_x1 :: rat
  sh_y1 :: rat
  sh_fillcolor :: string
  sh_line :: line_style
  sh_opacity :: rat

record font =
  ft_color :: string
  ft_size :: int

record annotation =
  an_x :: rat
  an_y :: rat
  an_ax :: "rat option"
  an_ay :: "rat option"
  an_xref :: "string option"
  an_yref :: "string option"
  an_axref :: "string option"
  an_ayref :: "string option"
  an_text :: "string option"
  an_showarrow :: "bool option"
  an_font :: "font option"
  an_align :: "string option"
  an_textangle :: "int option"
  an_arrowhead :: "int option"
  an_arrowsize :: "int option"
  an_arrowwidth :: "int option"
  an_arrowcolor :: "string option"
  an_bgcolor :: "string option"
  an_bordercolor :: "string option"
  an_borderwidth :: "int option"

text \<open>An annotation at \<open>(x, y)\<close> with no other keyword argument passed.\<close>

definition annotation_at :: "rat \<Rightarrow> rat \<Rightarrow> annotation" where
  "annotation_at x y =
    \<lparr>an_x = x, an_y = y, an_ax = None, an_ay = None,
     an_xref = None, an_yref = None, an_axref = None, an_ayref = None,
     an_text = None, an_showarrow = None, an_font = None, an_align = None,
     an_textangle = None, an_arrowhead = None, an_arrowsize = None,
     an_arrowwidth = None, an_arrowcolor = None,
     an_bgcolor = None, an_bordercolor = None, an_borderwidth = None\<rparr>"

record axis =
  ax_range :: "(rat \<times> rat) option"
  ax_showgrid :: "bool option"
  ax_showticklabels :: "bool option"
  ax_zeroline :: "bool option"

record layout =
  ly_title :: "string option"
  ly_xaxis :: axis
  ly_yaxis :: axis
  ly_plot_bgcolor :: "string option"
  ly_showlegend :: "bool option"

text \<open>
  The figure object: the shapes and annotations added so far, in the order of the calls,
  and the layout settings. \<open>written\<close> records the calls of \<^verbatim>\<open>write_image\<close>: the path
  and the image that the rendering backend made of the figure at that moment.
\<close>

record 'img figure =
  shapes :: "shape list"
  annotations :: "annotation list"
  layout :: layout
  written :: "(string \<times> 'img) list"

definition no_axis :: axis where
  "no_axis = \<lparr>ax_range = None, ax_showgrid = None, ax_showticklabels = None, ax_zeroline = None\<rparr>"

definition no_layout :: layout where
  "no_layout = \<lparr>ly_title = None, ly_xaxis = no_axis, ly_yaxis = no_axis,
                ly_plot_bgcolor = None, ly_showlegend = None\<rparr>"

text \<open>\<^verbatim>\<open>go.Figure()\<close> (line 18): nothing drawn, nothing set, nothing written.\<close>

definition Figure :: "'img figure" where
  "Figure = \<lparr>shapes = [], annotations = [], layout = no_layout, written = []\<rparr>"

text \<open>\<^verbatim>\<open>add_shape\<close> and \<^verbatim>\<open>add_annotation\<close> append to the figure's lists.\<close>

definition add_shape :: "shape \<Rightarrow> 'img figure \<Rightarrow> 'img figure" where
  "add_shape s fig = fig\<lparr>shapes := shapes fig @ [s]\<rparr>"

definition add_annotation :: "annotation \<Rightarrow> 'img figure \<Rightarrow> 'img figure" where
  "add_annotation a fig = fig\<lparr>annotations := annotations fig @ [a]\<rparr>"

text \<open>
  \<^verbatim>\<open>update_layout\<close> overrides the settings that are passed and keeps the others; a
  nested dict (\<^verbatim>\<open>xaxis\<close>, \<^verbatim>\<open>yaxis\<close>) is merged key by key.
\<close>

definition override :: "'a option \<Rightarrow> 'a option \<Rightarrow> 'a option" where
  "override new old = (case new of None \<Rightarrow> old | Some v \<Rightarrow> Some v)"

definition update_axis :: "axis \<Rightarrow> axis \<Rightarrow> axis" where
  "update_axis new old =
    \<lparr>ax_range = override (ax_range new) (ax_range old),
     ax_showgrid = override (ax_showgrid new) (ax_showgrid old),
     ax_showticklabels = override (ax_showticklabels new) (ax_showticklabels old),
     ax_zeroline = override (ax_zeroline new) (ax_zeroline old)\<rparr>"

definition update_layout :: "layout \<Rightarrow> 'img figure \<Rightarrow> 'img figure" where
  "update_layout new fig =
    fig\<lparr>layout :=
      \<lparr>ly_title = override (ly_title new) (ly_title (layout fig)),
       ly_xaxis = update_axis (ly_xaxis new) (ly_xaxis (layout fig)),
       ly_yaxis = update_axis (ly_yaxis new) (ly_yaxis (layout fig)),
       ly_plot_bgcolor = override (ly_plot_bgcolor new) (ly_plot_bgcolor (layout fig)),
       ly_showlegend = override (ly_showlegend new) (ly_showlegend (layout fig))\<rparr>\<rparr>"

text \<open>
  \<^verbatim>\<open>write_image\<close> hands the scene (everything of the figure but the record of writes)
  to the rendering backend and writes the image to the path. The backend is not part of
  the script: it is a parameter \<open>render\<close> that gives, for a scene, the set of images
  it may produce. A backend that always produces the same image for a scene gives a
  one-element set; where it produces none (the library is missing, the path cannot be
  written) the call raises and the run has no result, so the set of results is empty.
\<close>

type_synonym scene = "shape list \<times> annotation list \<times> layout"

definition scene :: "'img figure \<Rightarrow> scene" where
  "scene fig = (shapes fig, annotations fig, layout fig)"

definition write_image :: "(scene \<Rightarrow> 'img set) \<Rightarrow> string \<Rightarrow> 'img figure \<Rightarrow> 'img figure set" where
  "write_image render path fig =
    (\<lambda>img. fig\<lparr>written := written fig @ [(path, img)]\<rparr>) ` render (scene fig)"

subsection \<open>Strings\<close>

text \<open>
  Python's \<^verbatim>\<open>s.replace(old, new)\<close>: every occurrence of \<open>old\<close> in \<open>s\<close>, found from the
  left and not overlapping, becomes \<open>new\<close>. For an empty \<open>old\<close> Python puts \<open>new\<close>
  before every character and at the end.
\<close>

function str_replace :: "string \<Rightarrow> string \<Rightarrow> string \<Rightarrow> string" where
  "str_replace [] old new = (if old = [] then new else [])"
| "str_replace (c # s) old new =
    (if old = [] then new @ c # str_replace s old new
     else if take (length old) (c # s) = old
       then new @ str_replace (drop (length old) (c # s)) old new
       else c # str_replace s old new)"
  by pat_completeness auto
termination
  by (relation "measure (\<lambda>(s, old, new). length s)") auto

subsection \<open>The statements of the script\<close>

text \<open>Lines 21-39: for each component a rectangle and, at its centre, its name.\<close>

definition component_box :: "props \<Rightarrow> shape" where
  "component_box props =
    \<lparr>sh_type = ''rect'',
     sh_x0 = c_x props - 3/10, sh_y0 = c_y props - 2/10,
     sh_x1 = c_x props + 3/10, sh_y1 = c_y props + 2/10,
     sh_fillcolor = c_color props,
     sh_line = \<lparr>ln_color = Some ''white'', ln_width = Some 2\<rparr>,
     sh_opacity = 8/10\<rparr>"

definition component_label :: "string \<Rightarrow> props \<Rightarrow> annotation" where
  "component_label name props =
    (annotation_at (c_x props) (c_y props))
      \<lparr>an_text := Some (str_replace name '' '' ''<br>''),
       an_showarrow := Some False,
       an_font := Some \<lparr>ft_color = ''white'', ft_size = 9\<rparr>,
       an_align := Some ''center''\<rparr>"

fun component_loop :: "(string \<times> props) list \<Rightarrow> 'img figure \<Rightarrow> 'img figure" where
  "component_loop [] fig = fig"
| "component_loop ((name, props) # rest) fig =
    component_loop rest
      (add_annotation (component_label name props) (add_shape (component_box props) fig))"

text \<open>Lines 50-58: for each layer a wide, nearly transparent band.\<close>

definition layer_band :: "layer \<Rightarrow> shape" where
  "layer_band layer =
    \<lparr>sh_type = ''rect'',
     sh_x0 = - (2/10), sh_y0 = l_y layer - 4/10,
     sh_x1 = 42/10, sh_y1 = l_y layer + 4/10,
     sh_fillcolor = l_color layer,
     sh_line = \<lparr>ln_color = None, ln_width = Some 0\<rparr>,
     sh_opacity = l_alpha layer\<rparr>"

fun layer_band_loop :: "layer list \<Rightarrow> 'img figure \<Rightarrow> 'img figure" where
  "layer_band_loop [] fig = fig"
| "layer_band_loop (layer # rest) fig = layer_band_loop rest (add_shape (layer_band layer) fig)"

text \<open>Lines 61-69: the name of each layer, turned by 90 degrees, at the left edge.\<close>

definition layer_label :: "layer \<Rightarrow> annotation" where
  "layer_label layer =
    (annotation_at (- (1/10)) (l_y layer))
      \<lparr>an_text := Some (l_name layer),
       an_showarrow := Some False,
       an_font := Some \<lparr>ft_color = ''gray'', ft_size = 11\<rparr>,
       an_textangle := Some 90,
       an_align := Some ''center''\<rparr>"

fun layer_label_loop :: "layer list \<Rightarrow> 'img figure \<Rightarrow> 'img figure" where
  "layer_label_loop [] fig = fig"
| "layer_label_loop (layer # rest) fig =
    layer_label_loop rest (add_annotation (layer_label layer) fig)"

text \<open>
  Lines 87-98: the admin-bypass arrow. An arrow is an annotation whose head is at
  \<open>(x, y)\<close> and whose tail is at \<open>(ax, ay)\<close>; with \<^verbatim>\<open>axref="x"\<close>, \<^verbatim>\<open>ayref="y"\<close> the
  tail is given in the coordinates of the axes, as the head is.
\<close>

definition admin_bypass_arrow :: annotation where
  "admin_bypass_arrow =
    (annotation_at (28/10) (45/10))
      \<lparr>an_ax := Some (22/10), an_ay := Some (45/10),
       an_xref := Some ''x'', an_yref := Some ''y'',
       an_axref := Some ''x'', an_ayref := Some ''y'',
       an_arrowhead := Some 2,
       an_arrowsize := Some 1,
       an_arrowwidth := Some 3,
       an_arrowcolor := Some ''red'',
       an_text := Some ''Admin Bypass'',
       an_font := Some \<lparr>ft_color = ''red'', ft_size = 8\<rparr>\<rparr>"

text \<open>Lines 101-111: one arrow for each entry of \<^verbatim>\<open>user_flow_arrows\<close>.\<close>

definition flow_annotation :: "flow_arrow \<Rightarrow> annotation" where
  "flow_annotation arrow =
    (annotation_at (fst (u_end arrow)) (snd (u_end arrow)))
      \<lparr>an_ax := Some (fst (u_start arrow)), an_ay := Some (snd (u_start arrow)),
       an_xref := Some ''x'', an_yref := Some ''y'',
       an_axref := Some ''x'', an_ayref := Some ''y'',
       an_arrowhead := Some 2,
       an_arrowsize := Some 1,
       an_arrowwidth := Some 2,
       an_arrowcolor := Some (u_color arrow)\<rparr>"

fun flow_arrow_loop :: "flow_arrow list \<Rightarrow> 'img figure \<Rightarrow> 'img figure" where
  "flow_arrow_loop [] fig = fig"
| "flow_arrow_loop (arrow # rest) fig =
    flow_arrow_loop rest (add_annotation (flow_annotation arrow) fig)"

text \<open>Lines 115-124: the arrow from GitHub to the Workers.\<close>

definition github_arrow :: annotation where
  "github_arrow =
    (annotation_at (17/10) 4)
      \<lparr>an_ax := Some (8/10), an_ay := Some 4,
       an_xref := Some ''x'', an_yref := Some ''y'',
       an_axref := Some ''x'', an_ayref := Some ''y'',
       an_arrowhead := Some 2,
       an_arrowsize := Some 1,
       an_arrowwidth := Some 2,
       an_arrowcolor := Some ''green''\<rparr>"

text \<open>
  Lines 127-148: the two journey boxes. The bullet of the admin text is the code point
  U+2022; a \<open>char\<close> is a byte, so it is written as its three UTF-8 bytes.
\<close>

definition user_journey_label :: annotation where
  "user_journey_label =
    (annotation_at 4 (55/10))
      \<lparr>an_text := Some (''User Journey:<br>1. Upload Audio<br>2. AI Analysis'' @
                       ''<br>3. Preview<br>4. Payment<br>5. Download''),
       an_showarrow := Some False,
       an_font := Some \<lparr>ft_color = ''blue'', ft_size = 9\<rparr>,
       an_align := Some ''left'',
       an_bgcolor := Some ''rgba(255,255,255,0.8)'',
       an_bordercolor := Some ''blue'',
       an_borderwidth := Some 1\<rparr>"

definition bullet :: string where
  "bullet = [CHR 0xE2, CHR 0x80, CHR 0xA2]"

definition admin_journey_label :: annotation where
  "admin_journey_label =
    (annotation_at 4 (45/10))
      \<lparr>an_text := Some (''Admin Path:<br>'' @ bullet @ '' Token Bypass<br>'' @ bullet @
                       '' Full Access<br>'' @ bullet @ '' No Payment''),
       an_showarrow := Some False,
       an_font := Some \<lparr>ft_color = ''red'', ft_size = 9\<rparr>,
       an_align := Some ''left'',
       an_bgcolor := Some ''rgba(255,255,255,0.8)'',
       an_bordercolor := Some ''red'',
       an_borderwidth := Some 1\<rparr>"

text \<open>Lines 151-167: the keyword arguments of \<^verbatim>\<open>update_layout\<close>.\<close>

definition layout_settings :: layout where
  "layout_settings =
    \<lparr>ly_title = Some ''FWEA-I Audio System Architecture'',
     ly_xaxis = \<lparr>ax_range = Some (- (5/10), 5), ax_showgrid = Some False,
                 ax_showticklabels = Some False, ax_zeroline = Some False\<rparr>,
     ly_yaxis = \<lparr>ax_range = Some (5/10, 6), ax_showgrid = Some False,
                 ax_showticklabels = Some False, ax_zeroline = Some False\<rparr>,
     ly_plot_bgcolor = Some ''white'',
     ly_showlegend = Some False\<rparr>"

text \<open>The script, statement by statement, for given tables.\<close>

definition build_figure ::
  "(string \<times> props) list \<Rightarrow> layer list \<Rightarrow> flow_arrow list \<Rightarrow> 'img figure" where
  "build_figure cs ls us =
    (let fig = Figure;
         fig = component_loop cs fig;
         fig = layer_band_loop ls fig;
         fig = layer_label_loop ls fig;
         fig = add_annotation admin_bypass_arrow fig;
         fig = flow_arrow_loop us fig;
         fig = add_annotation github_arrow fig;
         fig = add_annotation user_journey_label fig;
         fig = add_annotation admin_journey_label fig;
         fig = update_layout layout_settings fig
     in fig)"

text \<open>The figure of the script's own tables, as it is when line 170 is reached.\<close>

definition chart_figure :: "'img figure" where
  "chart_figure = build_figure components layers user_flow_arrows"

text \<open>The whole script: the figures a run may end with, for a given backend.\<close>

definition chart_script :: "(scene \<Rightarrow> 'img set) \<Rightarrow> 'img figure set" where
  "chart_script render = write_image render ''fwea_architecture_updated.png'' chart_figure"

subsection \<open>Notions used to state the properties\<close>

text \<open>
  An annotation draws an arrow unless \<^verbatim>\<open>showarrow=False\<close> is passed (plotly's default
  is to draw it). The head of the arrow is at \<open>(x, y)\<close>; the tail is at \<open>(ax, ay)\<close>
  when both are passed and refer to the axes.
\<close>

definition draws_arrow :: "annotation \<Rightarrow> bool" where
  "draws_arrow a = (an_showarrow a \<noteq> Some False)"

definition arrows :: "'img figure \<Rightarrow> annotation list" where
  "arrows fig = filter draws_arrow (annotations fig)"

definition arrow_head :: "annotation \<Rightarrow> rat \<times> rat" where
  "arrow_head a = (an_x a, an_y a)"

definition arrow_tail :: "annotation \<Rightarrow> (rat \<times> rat) option" where
  "arrow_tail a =
    (case (an_ax a, an_ay a) of
       (Some tx, Some ty) \<Rightarrow>
         if an_axref a = Some ''x'' \<and> an_ayref a = Some ''y'' then Some (tx, ty) else None
     | _ \<Rightarrow> None)"

text \<open>A point lies within the axis ranges that the layout declares.\<close>

definition within_axes :: "layout \<Rightarrow> rat \<times> rat \<Rightarrow> bool" where
  "within_axes ly p =
    (case (ax_range (ly_xaxis ly), ax_range (ly_yaxis ly)) of
       (Some (xlo, xhi), Some (ylo, yhi)) \<Rightarrow>
         xlo \<le> fst p \<and> fst p \<le> xhi \<and> ylo \<le> snd p \<and> snd p \<le> yhi
     | _ \<Rightarrow> False)"

text \<open>An arrow has a tail on the axes, and tail and head lie within the declared ranges.\<close>

definition arrow_within_axes :: "layout \<Rightarrow> annotation \<Rightarrow> bool" where
  "arrow_within_axes ly a =
    (case arrow_tail a of
       None \<Rightarrow> False
     | Some t \<Rightarrow> within_axes ly t \<and> within_axes ly (arrow_head a))"

text \<open>
  The two kinds of rectangle are told apart by their border: a component box has a
  white border of width 2, a layer band a border of width 0 and no colour.
\<close>

definition is_component_box :: "shape \<Rightarrow> bool" where
  "is_component_box s = (sh_line s = \<lparr>ln_color = Some ''white'', ln_width = Some 2\<rparr>)"

definition is_layer_band :: "shape \<Rightarrow> bool" where
  "is_layer_band s = (sh_line s = \<lparr>ln_color = None, ln_width = Some 0\<rparr>)"

definition position :: "props \<Rightarrow> rat \<times> rat" where
  "position props = (c_x props, c_y props)"

definition labels_at :: "rat \<times> rat \<Rightarrow> 'img figure \<Rightarrow> annotation list" where
  "labels_at p fig = filter (\<lambda>a. (an_x a, an_y a) = p) (annotations fig)"

text \<open>
  The label as the specification words it: the name with every space character replaced
  by the line-break sequence, and nothing else changed.
\<close>

definition break_spaces :: "string \<Rightarrow> string" where
  "break_spaces name = concat (map (\<lambda>c. if c = CHR '' '' then ''<br>'' else [c]) name)"

text \<open>
  Lowercasing of a name on the ASCII letters, as Python's \<^verbatim>\<open>str.lower\<close> does there.
  The script never lowercases anything; the notion only relates the names of the layers
  to the categories of the components.
\<close>

definition lower_char :: "char \<Rightarrow> char" where
  "lower_char c =
    (let n = of_char c :: nat in if 65 \<le> n \<and> n \<le> 90 then char_of (n + 32) else c)"

definition lower :: "string \<Rightarrow> string" where
  "lower s = map lower_char s"

section \<open>What the loops add\<close>

lemma shapes_component_loop:
  "shapes (component_loop cs fig) = shapes fig @ map (\<lambda>(name, props). component_box props) cs"
  by (induction cs fig rule: component_loop.induct) (simp_all add: add_shape_def add_annotation_def)

lemma annotations_component_loop:
  "annotations (component_loop cs fig) =
    annotations fig @ map (\<lambda>(name, props). component_label name props) cs"
  by (induction cs fig rule: component_loop.induct) (simp_all add: add_shape_def add_annotation_def)

lemma rest_component_loop:
  "layout (component_loop cs fig) = layout fig \<and> written (component_loop cs fig) = written fig"
  by (induction cs fig rule: component_loop.induct) (simp_all add: add_shape_def add_annotation_def)

lemma shapes_layer_band_loop:
  "shapes (layer_band_loop ls fig) = shapes fig @ map layer_band ls"
  by (induction ls arbitrary: fig) (simp_all add: add_shape_def)

lemma rest_layer_band_loop:
  "annotations (layer_band_loop ls fig) = annotations fig \<and>
   layout (layer_band_loop ls fig) = layout fig \<and>
   written (layer_band_loop ls fig) = written fig"
  by (induction ls arbitrary: fig) (simp_all add: add_shape_def)

lemma annotations_layer_label_loop:
  "annotations (layer_label_loop ls fig) = annotations fig @ map layer_label ls"
  by (induction ls arbitrary: fig) (simp_all add: add_annotation_def)

lemma rest_layer_label_loop:
  "shapes (layer_label_loop ls fig) = shapes fig \<and>
   layout (layer_label_loop ls fig) = layout fig \<and>
   written (layer_label_loop ls fig) = written fig"
  by (induction ls arbitrary: fig) (simp_all add: add_annotation_def)

lemma annotations_flow_arrow_loop:
  "annotations (flow_arrow_loop us fig) = annotations fig @ map flow_annotation us"
  by (induction us arbitrary: fig) (simp_all add: add_annotation_def)

lemma rest_flow_arrow_loop:
  "shapes (flow_arrow_loop us fig) = shapes fig \<and>
   layout (flow_arrow_loop us fig) = layout fig \<and>
   written (flow_arrow_loop us fig) = written fig"
  by (induction us arbitrary: fig) (simp_all add: add_annotation_def)

text \<open>The figure the script builds, in closed form.\<close>

lemma shapes_build_figure:
  "shapes (build_figure cs ls us) =
    map (\<lambda>(name, props). component_box props) cs @ map layer_band ls"
  by (simp add: build_figure_def Let_def update_layout_def add_annotation_def
      rest_flow_arrow_loop rest_layer_label_loop shapes_layer_band_loop
      shapes_component_loop Figure_def)

lemma annotations_build_figure:
  "annotations (build_figure cs ls us) =
    map (\<lambda>(name, props). component_label name props) cs @ map layer_label ls @
    [admin_bypass_arrow] @ map flow_annotation us @
    [github_arrow, user_journey_label, admin_journey_label]"
  by (simp add: build_figure_def Let_def update_layout_def add_annotation_def
      annotations_flow_arrow_loop annotations_layer_label_loop rest_layer_band_loop
      annotations_component_loop Figure_def)

lemma layout_build_figure: "layout (build_figure cs ls us) = layout_settings"
  by (simp add: build_figure_def Let_def update_layout_def add_annotation_def
      rest_flow_arrow_loop rest_layer_label_loop rest_layer_band_loop
      rest_component_loop Figure_def no_layout_def no_axis_def update_axis_def
      override_def layout_settings_def)

lemma written_build_figure: "written (build_figure cs ls us) = []"
  by (simp add: build_figure_def Let_def update_layout_def add_annotation_def
      rest_flow_arrow_loop rest_layer_label_loop rest_layer_band_loop
      rest_component_loop Figure_def)

section \<open>The figure of the script\<close>

lemmas table_defs = components_def layers_def user_flow_arrows_def

lemmas annotation_defs =
  component_label_def layer_label_def admin_bypass_arrow_def flow_annotation_def
  github_arrow_def user_journey_label_def admin_journey_label_def annotation_at_def

lemma str_replace_space:
  "str_replace s '' '' new = concat (map (\<lambda>c. if c = CHR '' '' then new else [c]) s)"
  by (induction s) simp_all

lemma components_keys_distinct: "distinct (map fst components)"
  by (simp add: components_def)

lemma shapes_chart_figure:
  "shapes (chart_figure :: 'img figure) =
    map (\<lambda>(name, props). component_box props) components @ map layer_band layers"
  by (simp add: chart_figure_def shapes_build_figure)

lemma annotations_chart_figure:
  "annotations (chart_figure :: 'img figure) =
    map (\<lambda>(name, props). component_label name props) components @ map layer_label layers @
    [admin_bypass_arrow] @ map flow_annotation user_flow_arrows @
    [github_arrow, user_journey_label, admin_journey_label]"
  by (simp add: chart_figure_def annotations_build_figure)

lemma layout_chart_figure: "layout (chart_figure :: 'img figure) = layout_settings"
  by (simp add: chart_figure_def layout_build_figure)

lemma within_axes_chart_figure:
  "within_axes (layout (chart_figure :: 'img figure)) p =
    (- (5/10) \<le> fst p \<and> fst p \<le> 5 \<and> 5/10 \<le> snd p \<and> snd p \<le> 6)"
  by (simp add: layout_chart_figure within_axes_def layout_settings_def)

lemma ranges_chart_figure:
  "ax_range (ly_xaxis (layout (chart_figure :: 'img figure))) = Some (- (5/10), 5) \<and>
   ax_range (ly_yaxis (layout (chart_figure :: 'img figure))) = Some (5/10, 6)"
  by (simp add: layout_chart_figure layout_settings_def)

lemma arrows_chart_figure:
  "arrows (chart_figure :: 'img figure) =
    admin_bypass_arrow # map flow_annotation user_flow_arrows @ [github_arrow]"
  by (simp add: arrows_def annotations_chart_figure draws_arrow_def table_defs annotation_defs)

lemma box_kind: "is_component_box (component_box props) \<and> \<not> is_layer_band (component_box props)"
  by (simp add: is_component_box_def is_layer_band_def component_box_def)

lemma band_kind: "is_layer_band (layer_band layer) \<and> \<not> is_component_box (layer_band layer)"
  by (simp add: is_component_box_def is_layer_band_def layer_band_def)

lemma filter_boxes:
  "filter is_component_box (map (\<lambda>(name, props). component_box props) cs @ map layer_band ls) =
    map (\<lambda>(name, props). component_box props) cs"
  by (induction cs) (auto simp: box_kind band_kind filter_empty_conv)

lemma filter_bands:
  "filter is_layer_band (map (\<lambda>(name, props). component_box props) cs @ map layer_band ls) =
    map layer_band ls"
proof -
  have "filter is_layer_band (map (\<lambda>(name, props). component_box props) cs) = []"
    by (auto simp: filter_empty_conv box_kind)
  moreover have "filter is_layer_band (map layer_band ls) = map layer_band ls"
    by (auto simp: filter_id_conv band_kind)
  ultimately show ?thesis by simp
qed

lemma count_boxes:
  "length (filter is_component_box (shapes (build_figure cs ls us))) = length cs"
  by (simp only: shapes_build_figure filter_boxes length_map)

lemma count_bands:
  "length (filter is_layer_band (shapes (build_figure cs ls us))) = length ls"
  by (simp only: shapes_build_figure filter_bands length_map)

lemma written_chart_figure: "written (chart_figure :: 'img figure) = []"
  by (simp add: chart_figure_def written_build_figure)

lemma in_chart_script:
  "(fig :: 'img figure) \<in> chart_script render \<longleftrightarrow>
    (\<exists>img \<in> render (scene (chart_figure :: 'img figure)).
       fig = chart_figure\<lparr>written := [(''fwea_architecture_updated.png'', img)]\<rparr>)"
  by (simp add: chart_script_def write_image_def written_chart_figure image_iff)

lemma arrow_within_axes_chart_figure:
  "arrow_within_axes (layout (chart_figure :: 'img figure)) a \<longleftrightarrow>
    (\<exists>sx sy. arrow_tail a = Some (sx, sy) \<and>
       - (5/10) \<le> sx \<and> sx \<le> 5 \<and> 5/10 \<le> sy \<and> sy \<le> 6 \<and>
       - (5/10) \<le> an_x a \<and> an_x a \<le> 5 \<and> 5/10 \<le> an_y a \<and> an_y a \<le> 6)"
  by (cases "arrow_tail a")
     (auto simp: arrow_within_axes_def within_axes_chart_figure arrow_head_def)

lemma arrow_tail_flow: "arrow_tail (flow_annotation arrow) = Some (u_start arrow)"
  by (simp add: arrow_tail_def flow_annotation_def annotation_at_def)

lemma arrow_head_flow: "arrow_head (flow_annotation arrow) = u_end arrow"
  by (simp add: arrow_head_def flow_annotation_def annotation_at_def)

lemma all_arrows_within_axes:
  "\<forall>a \<in> set (arrows (chart_figure :: 'img figure)).
     arrow_within_axes (layout (chart_figure :: 'img figure)) a"
  by (simp add: arrows_chart_figure arrow_within_axes_def arrow_tail_flow arrow_head_flow
      within_axes_chart_figure user_flow_arrows_def)
     (simp add: arrow_tail_def arrow_head_def admin_bypass_arrow_def github_arrow_def
      annotation_at_def within_axes_chart_figure)

lemma lengths_tables: "length components = 9 \<and> length layers = 5 \<and> length user_flow_arrows = 7"
  by (simp add: table_defs)

lemma scene_written: "scene (fig\<lparr>written := w\<rparr>) = scene fig"
  by (simp add: scene_def)

lemma kinds_in_order:
  assumes "\<forall>x \<in> set xs. \<not> Q x" and "\<forall>y \<in> set ys. \<not> P y"
    and "i < length (xs @ ys)" and "j < length (xs @ ys)"
    and "P ((xs @ ys) ! i)" and "Q ((xs @ ys) ! j)"
  shows "i < length xs \<and> length xs \<le> j"
proof -
  have "i < length xs"
  proof (rule ccontr)
    assume "\<not> i < length xs"
    with assms(3,5) have "P (ys ! (i - length xs))" and "i - length xs < length ys"
      by (simp_all add: nth_append)
    with assms(2) show False
      using nth_mem by blast
  qed
  moreover have "length xs \<le> j"
  proof (rule ccontr)
    assume "\<not> length xs \<le> j"
    with assms(6) have "Q (xs ! j)" and "j < length xs"
      by (simp_all add: nth_append)
    with assms(1) show False
      using nth_mem by blast
  qed
  ultimately show ?thesis ..
qed

lemma boxes_first:
  assumes "i < length (shapes (build_figure cs ls us))"
    and "j < length (shapes (build_figure cs ls us))"
    and "is_component_box (shapes (build_figure cs ls us) ! i)"
    and "is_layer_band (shapes (build_figure cs ls us) ! j)"
  shows "i < length cs \<and> length cs \<le> j"
proof -
  let ?xs = "map (\<lambda>(name, props). component_box props) cs"
  let ?ys = "map layer_band ls"
  have "\<forall>x \<in> set ?xs. \<not> is_layer_band x" and "\<forall>y \<in> set ?ys. \<not> is_component_box y"
    by (auto simp: box_kind band_kind)
  from kinds_in_order [OF this, of i j] assms show ?thesis
    by (simp add: shapes_build_figure)
qed

lemma lower_layer_names:
  "lower ''Frontend'' = ''frontend''" "lower ''Backend'' = ''backend''"
  "lower ''Storage'' = ''storage''" "lower ''Processing'' = ''processing''"
  "lower ''Payment'' = ''payment''"
  by code_simp+

text \<open>
  A run with a backend that may produce two images can end in two figures that differ
  (in the image written, never in the scene); a run with a backend that produces none
  has no result.
\<close>

lemma backend_may_differ:
  "\<exists>fig1 \<in> chart_script (\<lambda>s. {0, 1 :: nat}). \<exists>fig2 \<in> chart_script (\<lambda>s. {0, 1 :: nat}).
     fig1 \<noteq> fig2 \<and> scene fig1 = scene fig2"
proof -
  let ?f = "\<lambda>n :: nat. (chart_figure :: nat figure)\<lparr>written := [(''fwea_architecture_updated.png'', n)]\<rparr>"
  have "?f 0 \<in> chart_script (\<lambda>s. {0, 1})" and "?f 1 \<in> chart_script (\<lambda>s. {0, 1})"
    by (simp_all add: in_chart_script)
  moreover have "written (?f 0) \<noteq> written (?f 1)" by simp
  then have "?f 0 \<noteq> ?f 1" by metis
  moreover have "scene (?f 0) = scene (?f 1)" by (simp add: scene_written)
  ultimately show ?thesis by blast
qed

lemma no_backend_no_result: "render (scene (chart_figure :: 'img figure)) = {} \<Longrightarrow> (chart_script render :: 'img figure set) = {}"
  by (simp add: chart_script_def write_image_def)

section \<open>Properties\<close>

text \<open>
  C1. The component table has the entry "Stripe" at position \<open>(3.5, 1)\<close> with category
  "payment" and colour \<open>#D2BA4C\<close>; it is the eighth entry, and the eighth shape of the
  figure is the rectangle of that entry, filled with \<open>#D2BA4C\<close>, which is the colour
  of every component of category "payment"; the only annotation at \<open>(3.5, 1)\<close> has
  the text "Stripe".
\<close>

theorem stripe_box_and_label:
  "map_of components ''Stripe'' =
     Some \<lparr>c_x = 35/10, c_y = 1, c_type = ''payment'', c_color = ''#D2BA4C''\<rparr> \<and>
   components ! 7 =
     (''Stripe'', \<lparr>c_x = 35/10, c_y = 1, c_type = ''payment'', c_color = ''#D2BA4C''\<rparr>) \<and>
   shapes (chart_figure :: 'img figure) ! 7 =
     component_box \<lparr>c_x = 35/10, c_y = 1, c_type = ''payment'', c_color = ''#D2BA4C''\<rparr> \<and>
   sh_type (shapes (chart_figure :: 'img figure) ! 7) = ''rect'' \<and>
   sh_fillcolor (shapes (chart_figure :: 'img figure) ! 7) = ''#D2BA4C'' \<and>
   map (\<lambda>(name, props). c_color props)
     (filter (\<lambda>(name, props). c_type props = ''payment'') components) = [''#D2BA4C''] \<and>
   map an_text (labels_at (35/10, 1) (chart_figure :: 'img figure)) = [Some ''Stripe'']"
  by (simp add: shapes_chart_figure annotations_chart_figure labels_at_def table_defs
      annotation_defs component_box_def)

text \<open>
  C2. The arrows of the figure are the admin-bypass arrow, the seven user-flow arrows
  and the GitHub arrow, nine in all; the layout declares the ranges \<open>[-0.5, 5]\<close> for
  x and \<open>[0.5, 6]\<close> for y; every arrow has its tail and its head within these ranges.
\<close>

theorem arrows_within_axes:
  "arrows (chart_figure :: 'img figure) =
     admin_bypass_arrow # map flow_annotation user_flow_arrows @ [github_arrow] \<and>
   length (arrows (chart_figure :: 'img figure)) = 9 \<and>
   ax_range (ly_xaxis (layout (chart_figure :: 'img figure))) = Some (- (5/10), 5) \<and>
   ax_range (ly_yaxis (layout (chart_figure :: 'img figure))) = Some (5/10, 6) \<and>
   (\<forall>a \<in> set (arrows (chart_figure :: 'img figure)).
      \<exists>sx sy. arrow_tail a = Some (sx, sy) \<and>
        - (5/10) \<le> sx \<and> sx \<le> 5 \<and> 5/10 \<le> sy \<and> sy \<le> 6 \<and>
        - (5/10) \<le> an_x a \<and> an_x a \<le> 5 \<and> 5/10 \<le> an_y a \<and> an_y a \<le> 6)"
proof (intro conjI)
  show "arrows (chart_figure :: 'img figure) =
      admin_bypass_arrow # map flow_annotation user_flow_arrows @ [github_arrow]"
    by (rule arrows_chart_figure)
  show "length (arrows (chart_figure :: 'img figure)) = 9"
    by (simp add: arrows_chart_figure user_flow_arrows_def)
  show "ax_range (ly_xaxis (layout (chart_figure :: 'img figure))) = Some (- (5/10), 5)"
    using ranges_chart_figure [where 'img = 'img] by (rule conjunct1)
  show "ax_range (ly_yaxis (layout (chart_figure :: 'img figure))) = Some (5/10, 6)"
    using ranges_chart_figure [where 'img = 'img] by (rule conjunct2)
  show "\<forall>a \<in> set (arrows (chart_figure :: 'img figure)).
      \<exists>sx sy. arrow_tail a = Some (sx, sy) \<and>
        - (5/10) \<le> sx \<and> sx \<le> 5 \<and> 5/10 \<le> sy \<and> sy \<le> 6 \<and>
        - (5/10) \<le> an_x a \<and> an_x a \<le> 5 \<and> 5/10 \<le> an_y a \<and> an_y a \<le> 6"
    using all_arrows_within_axes [where 'img = 'img]
    unfolding arrow_within_axes_chart_figure .
qed

theorem arrows_within_axes_witness:
  "github_arrow \<in> set (arrows (chart_figure :: unit figure)) \<and>
   (\<exists>sx sy. arrow_tail github_arrow = Some (sx, sy) \<and>
      - (5/10) \<le> sx \<and> sx \<le> 5 \<and> 5/10 \<le> sy \<and> sy \<le> 6 \<and>
      - (5/10) \<le> an_x github_arrow \<and> an_x github_arrow \<le> 5 \<and>
      5/10 \<le> an_y github_arrow \<and> an_y github_arrow \<le> 6)"
proof -
  have mem: "github_arrow \<in> set (arrows (chart_figure :: unit figure))"
    by (simp add: arrows_chart_figure)
  with arrows_within_axes [where 'img = unit] show ?thesis
    by blast
qed

text \<open>
  C3. The component boxes among the shapes of the figure are the boxes of the entries of
  the component table, one for each entry, and the table has 9 entries; the layer bands
  among the shapes are the bands of the entries of the layer table, one for each, and
  that table has 5 entries. The figure has these 14 shapes, all rectangles.
\<close>

theorem shape_counts:
  "filter is_component_box (shapes (chart_figure :: 'img figure)) =
     map (\<lambda>(name, props). component_box props) components \<and>
   length (filter is_component_box (shapes (chart_figure :: 'img figure))) = length components \<and>
   length components = 9 \<and>
   filter is_layer_band (shapes (chart_figure :: 'img figure)) = map layer_band layers \<and>
   length (filter is_layer_band (shapes (chart_figure :: 'img figure))) = length layers \<and>
   length layers = 5 \<and>
   length (shapes (chart_figure :: 'img figure)) = 14 \<and>
   map sh_type (shapes (chart_figure :: 'img figure)) =
     replicate (length (shapes (chart_figure :: 'img figure))) ''rect''"
proof (intro conjI)
  show "filter is_component_box (shapes (chart_figure :: 'img figure)) =
      map (\<lambda>(name, props). component_box props) components"
    by (simp only: shapes_chart_figure filter_boxes)
  then show "length (filter is_component_box (shapes (chart_figure :: 'img figure))) =
      length components"
    by (simp only: length_map)
  show "filter is_layer_band (shapes (chart_figure :: 'img figure)) = map layer_band layers"
    by (simp only: shapes_chart_figure filter_bands)
  then show "length (filter is_layer_band (shapes (chart_figure :: 'img figure))) = length layers"
    by (simp only: length_map)
  show "length components = 9" and "length layers = 5"
    by (simp_all add: lengths_tables)
  show "length (shapes (chart_figure :: 'img figure)) = 14"
    by (simp add: shapes_chart_figure lengths_tables)
  show "map sh_type (shapes (chart_figure :: 'img figure)) =
      replicate (length (shapes (chart_figure :: 'img figure))) ''rect''"
    by (simp add: shapes_chart_figure table_defs component_box_def layer_band_def)
qed

text \<open>
  C4. For every image that the backend can make of the scene there is a run that writes
  it (so the script has a result whenever the backend has one), and every run of the
  script ends with the x range \<open>[-0.5, 5]\<close> and the y range
  \<open>[0.5, 6]\<close>, with grid lines, tick labels and zero lines switched off on both axes,
  a white plot background and no legend; the figure holds the scene that was built, and
  exactly one image has been written, at \<^verbatim>\<open>fwea_architecture_updated.png\<close>, rendered
  from that scene with these layout settings in place.
\<close>

theorem layout_then_one_image:
  "(\<forall>img \<in> (render :: scene \<Rightarrow> 'img set) (scene (chart_figure :: 'img figure)).
      chart_figure\<lparr>written := [(''fwea_architecture_updated.png'', img)]\<rparr>
        \<in> chart_script render) \<and>
   (\<forall>fig \<in> chart_script render.
      ax_range (ly_xaxis (layout fig)) = Some (- (5/10), 5) \<and>
      ax_range (ly_yaxis (layout fig)) = Some (5/10, 6) \<and>
      ax_showgrid (ly_xaxis (layout fig)) = Some False \<and>
      ax_showgrid (ly_yaxis (layout fig)) = Some False \<and>
      ax_showticklabels (ly_xaxis (layout fig)) = Some False \<and>
      ax_showticklabels (ly_yaxis (layout fig)) = Some False \<and>
      ax_zeroline (ly_xaxis (layout fig)) = Some False \<and>
      ax_zeroline (ly_yaxis (layout fig)) = Some False \<and>
      ly_plot_bgcolor (layout fig) = Some ''white'' \<and>
      ly_showlegend (layout fig) = Some False \<and>
      scene fig = scene (chart_figure :: 'img figure) \<and>
      (\<exists>img. img \<in> render (scene fig) \<and>
         written fig = [(''fwea_architecture_updated.png'', img)]))"
  (is "?runs \<and> (\<forall>fig \<in> _. ?ends fig)")
proof (rule conjI)
  show ?runs
    unfolding in_chart_script by blast
  show "\<forall>fig \<in> chart_script render. ?ends fig"
  proof (rule ballI)
    fix fig :: "'img figure"
    assume "fig \<in> chart_script render"
    then obtain img where img: "img \<in> render (scene (chart_figure :: 'img figure))"
      and fig: "fig = chart_figure\<lparr>written := [(''fwea_architecture_updated.png'', img)]\<rparr>"
      unfolding in_chart_script by blast
    have "layout fig = layout_settings"
      by (simp add: fig layout_chart_figure)
    moreover have "scene fig = scene (chart_figure :: 'img figure)"
      by (simp add: fig scene_written)
    moreover have "written fig = [(''fwea_architecture_updated.png'', img)]"
      by (simp add: fig)
    ultimately show "?ends fig"
      using img by (simp add: layout_settings_def)
  qed
qed

theorem layout_then_one_image_witness:
  "14 \<in> (\<lambda>s :: scene. {length (fst s)}) (scene (chart_figure :: nat figure)) \<and>
   chart_figure\<lparr>written := [(''fwea_architecture_updated.png'', 14)]\<rparr>
     \<in> chart_script (\<lambda>s. {length (fst s)}) \<and>
   ly_showlegend
     (layout (chart_figure\<lparr>written := [(''fwea_architecture_updated.png'', 14 :: nat)]\<rparr>)) =
     Some False \<and>
   (\<exists>img. written (chart_figure\<lparr>written := [(''fwea_architecture_updated.png'', 14 :: nat)]\<rparr>) =
     [(''fwea_architecture_updated.png'', img)])"
proof -
  let ?render = "\<lambda>s :: scene. {length (fst s)}"
  let ?fig = "(chart_figure :: nat figure)\<lparr>written := [(''fwea_architecture_updated.png'', 14)]\<rparr>"
  have img: "14 \<in> ?render (scene (chart_figure :: nat figure))"
    by (simp add: scene_def shapes_chart_figure lengths_tables)
  with layout_then_one_image [of ?render] have mem: "?fig \<in> chart_script ?render"
    by blast
  with layout_then_one_image [of ?render]
  have "ly_showlegend (layout ?fig) = Some False \<and>
      (\<exists>img. written ?fig = [(''fwea_architecture_updated.png'', img)])"
    by blast
  with img mem show ?thesis
    by blast
qed

text \<open>
  C5. The text of a component's label is its name with every space replaced by
  \<^verbatim>\<open><br>\<close> and nothing else changed. The first annotations of the figure are these
  labels, in the order of the table, and the only annotation at the position of a
  component is its label. For the nine names of the table the texts are as listed.
\<close>

theorem labels_break_spaces:
  "(\<forall>name props. an_text (component_label name props) = Some (break_spaces name)) \<and>
   take (length components) (annotations (chart_figure :: 'img figure)) =
     map (\<lambda>(name, props). component_label name props) components \<and>
   map (\<lambda>(name, props). map an_text (labels_at (position props) (chart_figure :: 'img figure)))
     components = map (\<lambda>(name, props). [Some (break_spaces name)]) components \<and>
   map (\<lambda>(name, props). break_spaces name) components =
     [''Wix<br>Frontend'', ''Cloudflare<br>Workers'', ''R2<br>Storage'', ''KV<br>Store'',
      ''D1<br>Database'', ''Cloudflare<br>AI'', ''RunPod'', ''Stripe'', ''GitHub'']"
proof (intro conjI)
  show "\<forall>name props. an_text (component_label name props) = Some (break_spaces name)"
    by (simp add: component_label_def str_replace_space break_spaces_def)
  show "take (length components) (annotations (chart_figure :: 'img figure)) =
      map (\<lambda>(name, props). component_label name props) components"
    by (simp add: annotations_chart_figure)
  show "map (\<lambda>(name, props). map an_text (labels_at (position props) (chart_figure :: 'img figure)))
      components = map (\<lambda>(name, props). [Some (break_spaces name)]) components"
    by (simp add: labels_at_def annotations_chart_figure str_replace_space break_spaces_def
        position_def table_defs annotation_defs)
  show "map (\<lambda>(name, props). break_spaces name) components =
     [''Wix<br>Frontend'', ''Cloudflare<br>Workers'', ''R2<br>Storage'', ''KV<br>Store'',
      ''D1<br>Database'', ''Cloudflare<br>AI'', ''RunPod'', ''Stripe'', ''GitHub'']"
    by (simp add: break_spaces_def components_def)
qed

text \<open>
  C6. When the loop over the components ends the figure holds the nine boxes and nothing
  else; in the finished figure the first nine shapes are the boxes and the shapes after
  them are the five bands, so every component box comes before every layer band in the
  order of the calls.
\<close>

theorem boxes_before_bands:
  "shapes (component_loop components (Figure :: 'img figure)) =
     map (\<lambda>(name, props). component_box props) components \<and>
   take (length components) (shapes (chart_figure :: 'img figure)) =
     map (\<lambda>(name, props). component_box props) components \<and>
   drop (length components) (shapes (chart_figure :: 'img figure)) = map layer_band layers \<and>
   (\<forall>i j. i < length (shapes (chart_figure :: 'img figure)) \<and>
      j < length (shapes (chart_figure :: 'img figure)) \<and>
      is_component_box (shapes (chart_figure :: 'img figure) ! i) \<and>
      is_layer_band (shapes (chart_figure :: 'img figure) ! j) \<longrightarrow> i < j)"
proof (intro conjI allI impI)
  show "shapes (component_loop components (Figure :: 'img figure)) =
      map (\<lambda>(name, props). component_box props) components"
    by (simp add: shapes_component_loop Figure_def)
  show "take (length components) (shapes (chart_figure :: 'img figure)) =
      map (\<lambda>(name, props). component_box props) components"
    by (simp add: shapes_chart_figure)
  show "drop (length components) (shapes (chart_figure :: 'img figure)) = map layer_band layers"
    by (simp add: shapes_chart_figure)
next
  fix i j
  assume "i < length (shapes (chart_figure :: 'img figure)) \<and>
      j < length (shapes (chart_figure :: 'img figure)) \<and>
      is_component_box (shapes (chart_figure :: 'img figure) ! i) \<and>
      is_layer_band (shapes (chart_figure :: 'img figure) ! j)"
  then have "i < length components \<and> length components \<le> j"
    using boxes_first [of i components layers user_flow_arrows j]
    unfolding chart_figure_def by blast
  then show "i < j" by simp
qed

theorem boxes_before_bands_witness:
  "0 < length (shapes (chart_figure :: unit figure)) \<and>
   9 < length (shapes (chart_figure :: unit figure)) \<and>
   is_component_box (shapes (chart_figure :: unit figure) ! 0) \<and>
   is_layer_band (shapes (chart_figure :: unit figure) ! 9) \<and>
   (0 :: nat) < 9"
proof -
  have hyps: "0 < length (shapes (chart_figure :: unit figure)) \<and>
      9 < length (shapes (chart_figure :: unit figure)) \<and>
      is_component_box (shapes (chart_figure :: unit figure) ! 0) \<and>
      is_layer_band (shapes (chart_figure :: unit figure) ! 9)"
    by (simp add: shapes_chart_figure table_defs is_component_box_def is_layer_band_def
        component_box_def layer_band_def)
  with boxes_before_bands [where 'img = unit] show ?thesis
    by blast
qed

text \<open>
  C8. Both corners of every rectangle of the figure lie within the declared axis ranges:
  for a component at \<open>(x, y)\<close> the box \<open>[x - 0.3, x + 0.3] \<times> [y - 0.2, y + 0.2]\<close>, for
  a layer at \<open>y\<close> the band \<open>[-0.2, 4.2] \<times> [y - 0.4, y + 0.4]\<close>, are contained in
  \<open>[-0.5, 5] \<times> [0.5, 6]\<close>.
\<close>

theorem shapes_within_axes:
  "(\<forall>s \<in> set (shapes (chart_figure :: 'img figure)).
      within_axes (layout (chart_figure :: 'img figure)) (sh_x0 s, sh_y0 s) \<and>
      within_axes (layout (chart_figure :: 'img figure)) (sh_x1 s, sh_y1 s)) \<and>
   (\<forall>(name, props) \<in> set components.
      - (5/10) \<le> c_x props - 3/10 \<and> c_x props + 3/10 \<le> 5 \<and>
      5/10 \<le> c_y props - 2/10 \<and> c_y props + 2/10 \<le> 6) \<and>
   (\<forall>layer \<in> set layers.
      - (5/10) \<le> (- (2/10) :: rat) \<and> (42/10 :: rat) \<le> 5 \<and>
      5/10 \<le> l_y layer - 4/10 \<and> l_y layer + 4/10 \<le> 6)"
  by (simp add: shapes_chart_figure within_axes_chart_figure table_defs component_box_def
      layer_band_def)

theorem shapes_within_axes_witness:
  "component_box \<lparr>c_x = 35/10, c_y = 1, c_type = ''payment'', c_color = ''#D2BA4C''\<rparr>
     \<in> set (shapes (chart_figure :: unit figure)) \<and>
   within_axes (layout (chart_figure :: unit figure))
     (sh_x0 (component_box \<lparr>c_x = 35/10, c_y = 1, c_type = ''payment'', c_color = ''#D2BA4C''\<rparr>),
      sh_y0 (component_box \<lparr>c_x = 35/10, c_y = 1, c_type = ''payment'', c_color = ''#D2BA4C''\<rparr>)) \<and>
   within_axes (layout (chart_figure :: unit figure))
     (sh_x1 (component_box \<lparr>c_x = 35/10, c_y = 1, c_type = ''payment'', c_color = ''#D2BA4C''\<rparr>),
      sh_y1 (component_box \<lparr>c_x = 35/10, c_y = 1, c_type = ''payment'', c_color = ''#D2BA4C''\<rparr>))"
proof -
  have mem: "component_box \<lparr>c_x = 35/10, c_y = 1, c_type = ''payment'', c_color = ''#D2BA4C''\<rparr>
      \<in> set (shapes (chart_figure :: unit figure))"
    by (simp add: shapes_chart_figure components_def)
  with shapes_within_axes [where 'img = unit] show ?thesis
    by blast
qed

text \<open>
  C9. Every entry of the user-flow table starts strictly higher than it ends and has the
  colour blue; the arrow drawn for an entry has that tail, head and colour, and the blue
  arrows of the figure are exactly the arrows of the entries.
\<close>

theorem user_flow_down_and_blue:
  "(\<forall>arrow \<in> set user_flow_arrows.
      snd (u_end arrow) < snd (u_start arrow) \<and> u_color arrow = ''blue'') \<and>
   (\<forall>arrow \<in> set user_flow_arrows.
      flow_annotation arrow \<in> set (arrows (chart_figure :: 'img figure)) \<and>
      an_ay (flow_annotation arrow) = Some (snd (u_start arrow)) \<and>
      an_y (flow_annotation arrow) = snd (u_end arrow) \<and>
      an_arrowcolor (flow_annotation arrow) = Some (u_color arrow)) \<and>
   filter (\<lambda>a. an_arrowcolor a = Some ''blue'') (annotations (chart_figure :: 'img figure)) =
     map flow_annotation user_flow_arrows"
proof (intro conjI)
  show "\<forall>arrow \<in> set user_flow_arrows.
      snd (u_end arrow) < snd (u_start arrow) \<and> u_color arrow = ''blue''"
    by (simp add: user_flow_arrows_def)
  show "\<forall>arrow \<in> set user_flow_arrows.
      flow_annotation arrow \<in> set (arrows (chart_figure :: 'img figure)) \<and>
      an_ay (flow_annotation arrow) = Some (snd (u_start arrow)) \<and>
      an_y (flow_annotation arrow) = snd (u_end arrow) \<and>
      an_arrowcolor (flow_annotation arrow) = Some (u_color arrow)"
    by (simp add: arrows_chart_figure flow_annotation_def annotation_at_def)
  show "filter (\<lambda>a. an_arrowcolor a = Some ''blue'') (annotations (chart_figure :: 'img figure)) =
      map flow_annotation user_flow_arrows"
    by (simp add: annotations_chart_figure table_defs annotation_defs)
qed

theorem user_flow_down_and_blue_witness:
  "\<lparr>u_start = (25/10, 38/10), u_end = (33/10, 12/10), u_color = ''blue''\<rparr>
     \<in> set user_flow_arrows \<and>
   snd (u_end \<lparr>u_start = (25/10, 38/10), u_end = (33/10, 12/10), u_color = ''blue''\<rparr>)
     < snd (u_start \<lparr>u_start = (25/10, 38/10), u_end = (33/10, 12/10), u_color = ''blue''\<rparr>) \<and>
   u_color \<lparr>u_start = (25/10, 38/10), u_end = (33/10, 12/10), u_color = ''blue''\<rparr> = ''blue''"
proof -
  have mem: "\<lparr>u_start = (25/10, 38/10), u_end = (33/10, 12/10), u_color = ''blue''\<rparr>
      \<in> set user_flow_arrows"
    by (simp add: user_flow_arrows_def)
  with user_flow_down_and_blue [where 'img = unit] show ?thesis
    by blast
qed

text \<open>
  C10. For every layer there is a component whose category is the lowercased name of
  the layer and whose y-coordinate is that of the layer: frontend at 5, backend at 4,
  storage at 3, processing at 2, payment at 1.
\<close>

theorem layers_have_components:
  "(\<forall>layer \<in> set layers. \<exists>(name, props) \<in> set components.
      c_type props = lower (l_name layer) \<and> c_y props = l_y layer) \<and>
   map (\<lambda>layer. (lower (l_name layer), l_y layer)) layers =
     [(''frontend'', 5), (''backend'', 4), (''storage'', 3), (''processing'', 2), (''payment'', 1)]"
  by (simp add: table_defs lower_layer_names)

theorem layers_have_components_witness:
  "\<lparr>l_name = ''Payment'', l_y = 1, l_color = ''#D2BA4C'', l_alpha = 1/10\<rparr> \<in> set layers \<and>
   (\<exists>(name, props) \<in> set components. c_type props = lower ''Payment'' \<and> c_y props = 1)"
proof -
  have mem: "\<lparr>l_name = ''Payment'', l_y = 1, l_color = ''#D2BA4C'', l_alpha = 1/10\<rparr> \<in> set layers"
    by (simp add: layers_def)
  from layers_have_components [THEN conjunct1, rule_format, OF mem] mem show ?thesis
    by simp
qed

section \<open>Margins\<close>

text \<open>
  The order comparisons above hold with at least \<open>1/10\<close> to spare, so the rounding of
  Python's floating-point arithmetic cannot change any of them.
\<close>

lemma shapes_margin:
  "\<forall>s \<in> set (shapes (chart_figure :: 'img figure)).
     - (5/10) + 1/10 \<le> sh_x0 s \<and> sh_x0 s + 1/10 \<le> sh_x1 s \<and> sh_x1 s + 1/10 \<le> 5 \<and>
     5/10 + 1/10 \<le> sh_y0 s \<and> sh_y0 s + 1/10 \<le> sh_y1 s \<and> sh_y1 s + 1/10 \<le> 6"
  by (simp add: shapes_chart_figure table_defs component_box_def layer_band_def)

lemma flow_margin:
  "\<forall>arrow \<in> set user_flow_arrows. snd (u_end arrow) + 1/10 \<le> snd (u_start arrow)"
  by (simp add: user_flow_arrows_def)

lemma arrows_margin:
  "\<forall>a \<in> set (arrows (chart_figure :: 'img figure)).
     - (5/10) + 1/10 \<le> an_x a \<and> an_x a + 1/10 \<le> 5 \<and>
     5/10 + 1/10 \<le> an_y a \<and> an_y a + 1/10 \<le> 6 \<and>
     (case arrow_tail a of
        None \<Rightarrow> False
      | Some t \<Rightarrow> - (5/10) + 1/10 \<le> fst t \<and> fst t + 1/10 \<le> 5 \<and>
          5/10 + 1/10 \<le> snd t \<and> snd t + 1/10 \<le> 6)"
  by (simp add: arrows_chart_figure arrow_tail_flow user_flow_arrows_def)
     (simp add: arrow_tail_def admin_bypass_arrow_def github_arrow_def flow_annotation_def
      annotation_at_def)

end
